theory Spec2Isabelle
  imports Main "HOL-Library.Word"
begin

section \<open>UX Starter: the slide-generation script\<close>

text \<open>
  The script is Google Apps Script (JavaScript). This theory embeds its four
  functions \<^verbatim>\<open>parseFieldsAndCreateSlide\<close>, \<^verbatim>\<open>createRecommendationSlideGAS\<close>,
  \<^verbatim>\<open>retrieveClientImage\<close> and \<^verbatim>\<open>applyCustomStyle\<close>.

  \<^item> A JavaScript string is a sequence of UTF-16 code units: a list of 16-bit words.
  \<^item> The values the script handles are \<^verbatim>\<open>undefined\<close>, \<^verbatim>\<open>null\<close>, strings and the
    host's file objects.
  \<^item> A call into the host (spreadsheet toast, deck and slide operations) is recorded,
    in program order, in a list of calls. What the host returns is a parameter of the
    model. A host call that fails inside the host is outside the model.
  \<^item> A \<^verbatim>\<open>TypeError\<close> raised by the script itself (a method call on \<^verbatim>\<open>undefined\<close>
    or \<^verbatim>\<open>null\<close>) is a value of type \<open>error\<close>.
\<close>

subsection \<open>Strings\<close>

type_synonym jsstring = "16 word list"

text \<open>A string literal of the source, all of whose characters are ASCII.\<close>

definition lit :: "string \<Rightarrow> jsstring" where
  "lit s = map of_char s"

text \<open>\<^verbatim>\<open>s.split(',')\<close> and \<^verbatim>\<open>a.join(',')\<close> on an array of strings, for a separator
  of one code unit. The split of the empty string is the one-element array \<^verbatim>\<open>['']\<close>.\<close>

fun js_split :: "16 word \<Rightarrow> jsstring \<Rightarrow> jsstring list" where
  "js_split sep [] = [[]]"
| "js_split sep (c # cs) =
     (if c = sep then [] # js_split sep cs
      else (c # hd (js_split sep cs)) # tl (js_split sep cs))"

fun js_join :: "16 word \<Rightarrow> jsstring list \<Rightarrow> jsstring" where
  "js_join sep [] = []"
| "js_join sep [x] = x"
| "js_join sep (x # y # ys) = x @ sep # js_join sep (y # ys)"

definition comma :: "16 word" where
  "comma = 0x2C"

text \<open>\<^verbatim>\<open>s.trim()\<close> removes white space and line terminators from both ends.\<close>

definition isWhiteSpace :: "16 word \<Rightarrow> bool" where
  "isWhiteSpace c =
     (c = 0x0009 \<or> c = 0x000A \<or> c = 0x000B \<or> c = 0x000C \<or> c = 0x000D \<or> c = 0x0020
      \<or> c = 0x00A0 \<or> c = 0x1680 \<or> (0x2000 \<le> c \<and> c \<le> 0x200A) \<or> c = 0x2028
      \<or> c = 0x2029 \<or> c = 0x202F \<or> c = 0x205F \<or> c = 0x3000 \<or> c = 0xFEFF)"

definition js_trim :: "jsstring \<Rightarrow> jsstring" where
  "js_trim s = rev (dropWhile isWhiteSpace (rev (dropWhile isWhiteSpace s)))"

subsection \<open>Values\<close>

datatype prim = Undefined | Null | Str jsstring

datatype 'f image = Prim prim | FileObj 'f

datatype error = TypeError

text \<open>\<^verbatim>\<open>ToString\<close>, as a template literal and \<^verbatim>\<open>+\<close> with a string operand apply it.\<close>

fun ToString :: "prim \<Rightarrow> jsstring" where
  "ToString Undefined = lit ''undefined''"
| "ToString Null = lit ''null''"
| "ToString (Str s) = s"

text \<open>\<^verbatim>\<open>v.split(',')\<close>: a \<^verbatim>\<open>TypeError\<close> when \<open>v\<close> is \<^verbatim>\<open>undefined\<close> or \<^verbatim>\<open>null\<close>.\<close>

fun split_comma :: "prim \<Rightarrow> error + jsstring list" where
  "split_comma (Str s) = Inr (js_split comma s)"
| "split_comma Undefined = Inl TypeError"
| "split_comma Null = Inl TypeError"

subsection \<open>Messages\<close>

definition WARNING_NO_IMAGES :: jsstring where
  "WARNING_NO_IMAGES = lit ''No image found for criteria id ''"

definition WARNING_MULTIPLE_IMAGES :: jsstring where
  "WARNING_MULTIPLE_IMAGES = lit ''No image found for criteria id ''"

subsection \<open>Numbers and array indexing\<close>

text \<open>
  The script turns a configured 1-based column number into an array index with
  \<^verbatim>\<open>getProperty(key) - 1\<close> and reads \<^verbatim>\<open>row[index]\<close>. A number is kept as
  \<open>Integral n\<close> when it is the integer \<open>n\<close>, and as \<open>NotIntegral\<close> otherwise
  (\<^verbatim>\<open>NaN\<close>, the infinities, every value with a fractional part). Subtracting one
  from a value that is not an integer never gives a non-negative integer, and
  subtracting one from an integer is exact below \<open>2 ^ 53\<close>, far above any array
  length, so \<open>row_at\<close> reads what the engine reads.

  The conversion of a string to a number is the engine's; it is the parameter
  \<open>StringToNumber\<close> of the model. \<^verbatim>\<open>null\<close> converts to 0 and \<^verbatim>\<open>undefined\<close>
  to \<^verbatim>\<open>NaN\<close>.
\<close>

datatype jsnum = Integral int | NotIntegral

fun ToNumber :: "(jsstring \<Rightarrow> jsnum) \<Rightarrow> prim \<Rightarrow> jsnum" where
  "ToNumber stn Undefined = NotIntegral"
| "ToNumber stn Null = Integral 0"
| "ToNumber stn (Str s) = stn s"

fun minus_one :: "jsnum \<Rightarrow> jsnum" where
  "minus_one (Integral n) = Integral (n - 1)"
| "minus_one NotIntegral = NotIntegral"

text \<open>\<^verbatim>\<open>row[index]\<close>: \<^verbatim>\<open>undefined\<close> unless the index is an integer within the row.\<close>

fun row_at :: "jsstring list \<Rightarrow> jsnum \<Rightarrow> prim" where
  "row_at row (Integral n) =
     (if 0 \<le> n \<and> n < int (length row) then Str (row ! nat n) else Undefined)"
| "row_at row NotIntegral = Undefined"

text \<open>An instance of the conversion for the examples below: the value of a non-empty
  string of ASCII decimal digits. The examples apply it to such strings only.\<close>

definition decimalDigits :: "jsstring \<Rightarrow> jsnum" where
  "decimalDigits s =
     (if s \<noteq> [] \<and> list_all (\<lambda>c. 0x30 \<le> c \<and> c \<le> 0x39) s
      then Integral (foldl (\<lambda>a c. 10 * a + (uint c - 48)) 0 s)
      else NotIntegral)"

subsection \<open>The environment of the script\<close>

text \<open>
  The globals the functions read: the variable \<^verbatim>\<open>documentProperties\<close>, the store
  behind \<^verbatim>\<open>PropertiesService.getDocumentProperties()\<close>, and the variable
  \<^verbatim>\<open>folder\<close>. A folder is modelled by its method \<^verbatim>\<open>searchFiles\<close>: the files a
  query enumerates, in the order of the iterator.
\<close>

type_synonym 'f folder = "jsstring \<Rightarrow> 'f list"

record 'f globals =
  documentProperties :: "jsstring \<rightharpoonup> jsstring"
  PropertiesService :: "jsstring \<rightharpoonup> jsstring"
  folder :: "'f folder"
  StringToNumber :: "jsstring \<Rightarrow> jsnum"

text \<open>\<^verbatim>\<open>getProperty(key)\<close>: the stored string, or \<^verbatim>\<open>null\<close> for a key that is not set.\<close>

definition getProperty :: "(jsstring \<rightharpoonup> jsstring) \<Rightarrow> jsstring \<Rightarrow> prim" where
  "getProperty props key = (case props key of None \<Rightarrow> Null | Some v \<Rightarrow> Str v)"

text \<open>The deck and slide lookups of \<^verbatim>\<open>SlidesApp\<close>; what they return is the host's.\<close>

record ('d, 's) slidesApp =
  openById :: "prim \<Rightarrow> 'd"
  getSlideById :: "'d \<Rightarrow> jsstring \<Rightarrow> 's"

datatype placeholder = TITLE | SUBTITLE | BODY

datatype linking = LINKED | NOT_LINKED

text \<open>
  The calls into the host, in program order. \<open>InsertImage src name\<close> is
  \<^verbatim>\<open>slide.insertImage\<close> of \<open>src\<close> at the left, top, width and height of the shape
  that \<^verbatim>\<open>retrieveShape(slide, name)\<close> returns. \<open>AppendInsightSlides\<close> is the call of
  the script's function \<^verbatim>\<open>appendInsightSlides\<close>.
\<close>

datatype ('d, 'l, 'f) call =
    Toast jsstring
  | AppendLayoutSlide 'd 'l
  | SetText placeholder prim
  | InsertImage "'f image" jsstring
  | AppendInsightSlides 'd 'd "jsstring list"

text \<open>The calls of \<^verbatim>\<open>applyCustomStyle\<close>: \<^verbatim>\<open>SlidesApp.openById\<close>,
  \<^verbatim>\<open>getSlideById\<close> on a deck, and \<^verbatim>\<open>appendSlide\<close> of a slide with a linking mode.\<close>

datatype ('d, 's) deckCall =
    OpenById prim
  | GetSlideById 'd jsstring
  | AppendSlide 'd 's linking

subsection \<open>retrieveClientImage\<close>

definition searchQuery :: "prim \<Rightarrow> jsstring" where
  "searchQuery criteriaId =
     lit ''title contains '' @ [0x27] @ ToString criteriaId @ [0x27, 0x0A]
       @ lit ''      and mimeType contains '' @ [0x27] @ lit ''image'' @ [0x27]"

text \<open>
  The file iterator is the list of files not yet enumerated: \<^verbatim>\<open>hasNext()\<close> is
  \<open>files \<noteq> []\<close>, and \<^verbatim>\<open>next()\<close> takes the head. The result is the messages of
  the toasts shown on the spreadsheet, in order, and the value returned.
\<close>

definition retrieveClientImage ::
  "'f globals \<Rightarrow> 'f folder \<Rightarrow> prim \<Rightarrow> jsstring list \<times> 'f image" where
  "retrieveClientImage g fld criteriaId =
     (let files = fld (searchQuery criteriaId);
          (file, files', toasts) =
            (case files of
               f # rest \<Rightarrow> (FileObj f, rest, [])
             | [] \<Rightarrow> (Prim Null, [], [WARNING_NO_IMAGES @ ToString criteriaId]));
          toasts' =
            (if files' \<noteq> []
             then toasts @ [WARNING_MULTIPLE_IMAGES @ ToString criteriaId]
             else toasts);
          file' =
            (if file = Prim Null
             then Prim (getProperty (PropertiesService g) (lit ''DEFAULT_IMAGE_MOCKUP''))
             else file)
      in (toasts', file'))"

subsection \<open>createRecommendationSlideGAS\<close>

definition createRecommendationSlideGAS ::
  "'d \<Rightarrow> 'l \<Rightarrow> prim \<Rightarrow> prim \<Rightarrow> prim \<Rightarrow> 'f image \<Rightarrow> 'f image \<Rightarrow> ('d, 'l, 'f) call list" where
  "createRecommendationSlideGAS deck recommendationSlideLayout criteria applicable
       description imageMockup clientImage =
     [AppendLayoutSlide deck recommendationSlideLayout,
      SetText TITLE criteria,
      SetText SUBTITLE applicable,
      SetText BODY description,
      InsertImage imageMockup (lit ''best-practice''),
      InsertImage clientImage (lit ''client-mockup'')]"

subsection \<open>parseFieldsAndCreateSlide\<close>

definition propertyIndex :: "'f globals \<Rightarrow> jsstring \<Rightarrow> jsnum" where
  "propertyIndex g key =
     minus_one (ToNumber (StringToNumber g) (getProperty (documentProperties g) key))"

text \<open>The image source of lines 81 to 83: the default replaces a cell that is
  strictly equal to the empty string.\<close>

definition imageMockup :: "'f globals \<Rightarrow> jsstring list \<Rightarrow> prim" where
  "imageMockup g row =
     (let criteriaImageMockupIndex = propertyIndex g (lit ''RECOMMENDATIONS_IMAGE_MOCKUP_ROW'');
          criteriaDefaultImageUrl = getProperty (documentProperties g) (lit ''DEFAULT_IMAGE_MOCKUP'')
      in if row_at row criteriaImageMockupIndex = Str []
         then criteriaDefaultImageUrl
         else row_at row criteriaImageMockupIndex)"

text \<open>
  The two \<^verbatim>\<open>split\<close> calls can raise; both come before the first call into the
  host, so a run that raises has made no call.
\<close>

definition parseFieldsAndCreateSlide ::
  "'f globals \<Rightarrow> 'd \<Rightarrow> 'd \<Rightarrow> 'l \<Rightarrow> jsstring list \<Rightarrow> error + ('d, 'l, 'f) call list" where
  "parseFieldsAndCreateSlide g deck insightDeck recommendationSlideLayout row =
     (let criteriaIdIndex = propertyIndex g (lit ''RECOMMENDATIONS_CRITERIA_ID_ROW'');
          criteriaNameIndex = propertyIndex g (lit ''RECOMMENDATIONS_CRITERIA_NAME_ROW'');
          criteriaAppliesIndex = propertyIndex g (lit ''RECOMMENDATIONS_APPLIES_ROW'');
          criteriaProblemStatementIndex =
            propertyIndex g (lit ''RECOMMENDATIONS_PROBLEM_STATEMENT_ROW'');
          criteriaSolutionStatementIndex =
            propertyIndex g (lit ''RECOMMENDATIONS_SOLUTION_STATEMENT_ROW'');
          criteriaInsightSlidesIndex = propertyIndex g (lit ''RECOMMENDATIONS_INSIGHTS_ROW'');
          criteriaId = row_at row criteriaIdIndex;
          criteria = row_at row criteriaNameIndex
      in case split_comma (row_at row criteriaAppliesIndex) of
           Inl e \<Rightarrow> Inl e
         | Inr pages \<Rightarrow>
             (let applicable = lit ''Applies for: '' @ js_join comma pages;
                  description =
                    ToString (row_at row criteriaProblemStatementIndex) @ [0x0A]
                      @ ToString (row_at row criteriaSolutionStatementIndex)
              in case split_comma (row_at row criteriaInsightSlidesIndex) of
                   Inl e \<Rightarrow> Inl e
                 | Inr insights \<Rightarrow>
                     (let (toasts, clientImage) = retrieveClientImage g (folder g) criteriaId
                      in Inr (map Toast toasts
                           @ createRecommendationSlideGAS deck recommendationSlideLayout
                               criteria (Str applicable) (Str description)
                               (Prim (imageMockup g row)) clientImage
                           @ (if length insights > 0
                              then [AppendInsightSlides deck insightDeck insights]
                              else [])))))"

subsection \<open>applyCustomStyle\<close>

text \<open>\<^verbatim>\<open>v.trim()\<close>: a \<^verbatim>\<open>TypeError\<close> when \<open>v\<close> is \<^verbatim>\<open>undefined\<close> or \<^verbatim>\<open>null\<close>.\<close>

fun trim_prim :: "prim \<Rightarrow> error + jsstring" where
  "trim_prim (Str s) = Inr (js_trim s)"
| "trim_prim Undefined = Inl TypeError"
| "trim_prim Null = Inl TypeError"

text \<open>The result is the calls made and the error that ended the run, if any.\<close>

definition applyCustomStyle ::
  "('d, 's) slidesApp \<Rightarrow> 'f globals \<Rightarrow> jsstring \<Rightarrow> ('d, 's) deckCall list \<times> error option" where
  "applyCustomStyle app g newDeckId =
     (let deck = openById app (Str newDeckId);
          insightDeckId = getProperty (documentProperties g) (lit ''INSIGHTS_DECK_ID'');
          insightDeck = openById app insightDeckId;
          endSlideId = getProperty (documentProperties g) (lit ''END_SLIDE_ID'');
          opened = [OpenById (Str newDeckId), OpenById insightDeckId]
      in case trim_prim endSlideId of
           Inl e \<Rightarrow> (opened, Some e)
         | Inr trimmed \<Rightarrow>
             (let endSlide = getSlideById app insightDeck trimmed
              in (opened @ [GetSlideById insightDeck trimmed,
                            AppendSlide deck endSlide NOT_LINKED], None)))"

subsection \<open>Reading a configured column\<close>

text \<open>\<open>field g row key\<close> is \<^verbatim>\<open>row[documentProperties.getProperty(key) - 1]\<close>, and
  \<open>in_row row n\<close> says that the number \<open>n\<close> is a position of the row.\<close>

definition field :: "'f globals \<Rightarrow> jsstring list \<Rightarrow> string \<Rightarrow> prim" where
  "field g row key = row_at row (propertyIndex g (lit key))"

definition in_row :: "jsstring list \<Rightarrow> jsnum \<Rightarrow> bool" where
  "in_row row n =
     (case n of Integral k \<Rightarrow> 0 \<le> k \<and> k < int (length row) | NotIntegral \<Rightarrow> False)"

subsection \<open>An example configuration\<close>

text \<open>
  Seven columns in the order id, name, applies to, problem, solution, image mockup,
  insights. The folder holds two screenshots for criteria \<^verbatim>\<open>c1\<close>, one for
  \<^verbatim>\<open>c2\<close> and none for any other id.
\<close>

definition ex_props :: "jsstring \<rightharpoonup> jsstring" where
  "ex_props =
     [lit ''RECOMMENDATIONS_CRITERIA_ID_ROW'' \<mapsto> lit ''1'',
      lit ''RECOMMENDATIONS_CRITERIA_NAME_ROW'' \<mapsto> lit ''2'',
      lit ''RECOMMENDATIONS_APPLIES_ROW'' \<mapsto> lit ''3'',
      lit ''RECOMMENDATIONS_PROBLEM_STATEMENT_ROW'' \<mapsto> lit ''4'',
      lit ''RECOMMENDATIONS_SOLUTION_STATEMENT_ROW'' \<mapsto> lit ''5'',
      lit ''RECOMMENDATIONS_IMAGE_MOCKUP_ROW'' \<mapsto> lit ''6'',
      lit ''RECOMMENDATIONS_INSIGHTS_ROW'' \<mapsto> lit ''7'',
      lit ''DEFAULT_IMAGE_MOCKUP'' \<mapsto> lit ''https://example.com/default.png'',
      lit ''INSIGHTS_DECK_ID'' \<mapsto> lit ''insights-deck'',
      lit ''END_SLIDE_ID'' \<mapsto> lit '' end_1 '' @ [0x0A]]"

definition ex_folder :: "nat folder" where
  "ex_folder q =
     (if q = searchQuery (Str (lit ''c1'')) then [10, 11]
      else if q = searchQuery (Str (lit ''c2'')) then [20]
      else [])"

definition ex_globals :: "nat globals" where
  "ex_globals =
     \<lparr>documentProperties = ex_props, PropertiesService = ex_props,
      folder = ex_folder, StringToNumber = decimalDigits\<rparr>"

definition ex_row :: "jsstring list" where
  "ex_row =
     [lit ''c2'', lit ''Tap targets'', lit ''Page A,Page B'', lit ''Small buttons.'',
      lit ''Enlarge them.'', [], []]"

text \<open>The same row with one space in the image cell and two insight ids.\<close>

definition ex_row_space :: "jsstring list" where
  "ex_row_space =
     [lit ''c2'', lit ''Tap targets'', lit ''Page A,Page B'', lit ''Small buttons.'',
      lit ''Enlarge them.'', lit '' '', lit ''S1,S2'']"

text \<open>A configuration for a row of two cells, applies to and insights; the other five
  columns are configured at position 9.\<close>

definition ex_props_short :: "jsstring \<rightharpoonup> jsstring" where
  "ex_props_short =
     [lit ''RECOMMENDATIONS_CRITERIA_ID_ROW'' \<mapsto> lit ''9'',
      lit ''RECOMMENDATIONS_CRITERIA_NAME_ROW'' \<mapsto> lit ''9'',
      lit ''RECOMMENDATIONS_APPLIES_ROW'' \<mapsto> lit ''1'',
      lit ''RECOMMENDATIONS_PROBLEM_STATEMENT_ROW'' \<mapsto> lit ''9'',
      lit ''RECOMMENDATIONS_SOLUTION_STATEMENT_ROW'' \<mapsto> lit ''9'',
      lit ''RECOMMENDATIONS_IMAGE_MOCKUP_ROW'' \<mapsto> lit ''9'',
      lit ''RECOMMENDATIONS_INSIGHTS_ROW'' \<mapsto> lit ''2'']"

definition ex_globals_short :: "nat globals" where
  "ex_globals_short =
     \<lparr>documentProperties = ex_props_short, PropertiesService = ex_props,
      folder = ex_folder, StringToNumber = decimalDigits\<rparr>"

definition ex_row_short :: "jsstring list" where
  "ex_row_short = [lit ''Page A'', lit ''S1'']"

text \<open>A host in which a deck is a number and a slide is a pair of its deck and its id.\<close>

definition ex_app :: "(nat, nat \<times> jsstring) slidesApp" where
  "ex_app =
     \<lparr>openById = (\<lambda>v. if v = Str (lit ''new-deck'') then 1 else 2),
      getSlideById = (\<lambda>d s. (d, s))\<rparr>"

lemmas ex_defs =
  ex_props_def ex_folder_def ex_globals_def ex_row_def ex_row_space_def
  ex_props_short_def ex_globals_short_def ex_row_short_def ex_app_def

lemmas eval_defs =
  lit_def field_def in_row_def propertyIndex_def getProperty_def decimalDigits_def
  searchQuery_def comma_def isWhiteSpace_def

section \<open>Properties\<close>

subsection \<open>Strings\<close>

lemma js_split_not_Nil: "js_split sep s \<noteq> []"
  by (induction s) simp_all

lemma js_join_Cons_Cons: "js_join sep ((c # x) # xs) = c # js_join sep (x # xs)"
  by (cases xs) simp_all

lemma js_join_Cons: "ys \<noteq> [] \<Longrightarrow> js_join sep ((c # hd ys) # tl ys) = c # js_join sep ys"
  by (cases ys) (simp_all add: js_join_Cons_Cons)

lemma js_join_Nil_Cons: "ys \<noteq> [] \<Longrightarrow> js_join sep ([] # ys) = sep # js_join sep ys"
  by (cases ys) simp_all

lemma js_join_split: "js_join sep (js_split sep s) = s"
  by (induction s) (simp_all add: js_join_Cons js_join_Nil_Cons js_split_not_Nil)

lemma dropWhile_list_all: "list_all P xs \<Longrightarrow> dropWhile P (xs @ ys) = dropWhile P ys"
  by (induction xs) simp_all

text \<open>Trimming removes a white-space prefix and suffix around a core that neither
  starts nor ends with white space; every string splits that way.\<close>

lemma js_trim_core:
  assumes pre: "list_all isWhiteSpace pre" and post: "list_all isWhiteSpace post"
    and core: "core = [] \<or> (\<not> isWhiteSpace (hd core) \<and> \<not> isWhiteSpace (last core))"
  shows "js_trim (pre @ core @ post) = core"
proof (cases "core = []")
  case True
  from pre post have "\<forall>x\<in>set (pre @ post). isWhiteSpace x"
    by (auto simp add: list_all_iff)
  then have "dropWhile isWhiteSpace (pre @ post) = []"
    by (simp only: dropWhile_eq_Nil_conv)
  then have "js_trim (pre @ post) = []"
    by (simp only: js_trim_def rev.simps dropWhile.simps)
  with True show ?thesis by simp
next
  case False
  with core have h: "\<not> isWhiteSpace (hd core)" and l: "\<not> isWhiteSpace (last core)"
    by simp_all
  from pre have "dropWhile isWhiteSpace (pre @ core @ post) = dropWhile isWhiteSpace (core @ post)"
    by (rule dropWhile_list_all)
  also from False h have "\<dots> = core @ post"
    by (cases core) simp_all
  finally have front: "dropWhile isWhiteSpace (pre @ core @ post) = core @ post" .
  from post have "list_all isWhiteSpace (rev post)"
    by (simp add: list_all_iff)
  then have "dropWhile isWhiteSpace (rev post @ rev core) = dropWhile isWhiteSpace (rev core)"
    by (rule dropWhile_list_all)
  also from False l have "\<dots> = rev core"
    by (cases "rev core") (simp_all add: last_rev [symmetric] del: last_rev)
  finally show ?thesis using front by (simp add: js_trim_def)
qed

subsection \<open>Rows\<close>

lemma row_at_cases: "row_at row n = Undefined \<or> (\<exists>s. row_at row n = Str s)"
  by (cases n) simp_all

lemma row_at_in_row: "in_row row n \<Longrightarrow> row_at row n = Str (ToString (row_at row n))"
  by (cases n) (simp_all add: in_row_def)

lemma row_at_out: "\<not> in_row row n \<Longrightarrow> row_at row n = Undefined"
  by (cases n) (simp_all add: in_row_def)

subsection \<open>The image resolver, by the number of files found\<close>

lemma retrieveClientImage_none:
  "fld (searchQuery cid) = [] \<Longrightarrow>
   retrieveClientImage g fld cid =
     ([WARNING_NO_IMAGES @ ToString cid],
      Prim (getProperty (PropertiesService g) (lit ''DEFAULT_IMAGE_MOCKUP'')))"
  by (simp add: retrieveClientImage_def)

lemma retrieveClientImage_one:
  "fld (searchQuery cid) = [f] \<Longrightarrow> retrieveClientImage g fld cid = ([], FileObj f)"
  by (simp add: retrieveClientImage_def)

lemma retrieveClientImage_many:
  "fld (searchQuery cid) = f # f' # fs \<Longrightarrow>
   retrieveClientImage g fld cid = ([WARNING_MULTIPLE_IMAGES @ ToString cid], FileObj f)"
  by (simp add: retrieveClientImage_def)

subsection \<open>The row parser, by whether the two split cells exist\<close>

lemma parse_Inr:
  assumes "field g row ''RECOMMENDATIONS_APPLIES_ROW'' = Str pages"
    and "field g row ''RECOMMENDATIONS_INSIGHTS_ROW'' = Str ids"
  shows "parseFieldsAndCreateSlide g deck insightDeck layout row =
     Inr (map Toast (fst (retrieveClientImage g (folder g)
                            (field g row ''RECOMMENDATIONS_CRITERIA_ID_ROW'')))
          @ createRecommendationSlideGAS deck layout
              (field g row ''RECOMMENDATIONS_CRITERIA_NAME_ROW'')
              (Str (lit ''Applies for: '' @ pages))
              (Str (ToString (field g row ''RECOMMENDATIONS_PROBLEM_STATEMENT_ROW'') @ [0x0A]
                    @ ToString (field g row ''RECOMMENDATIONS_SOLUTION_STATEMENT_ROW'')))
              (Prim (imageMockup g row))
              (snd (retrieveClientImage g (folder g)
                      (field g row ''RECOMMENDATIONS_CRITERIA_ID_ROW'')))
          @ [AppendInsightSlides deck insightDeck (js_split comma ids)])"
  using assms
  by (simp add: parseFieldsAndCreateSlide_def field_def Let_def split_def
      js_join_split js_split_not_Nil)

lemma parse_Inl:
  assumes "field g row ''RECOMMENDATIONS_APPLIES_ROW'' = Undefined
     \<or> field g row ''RECOMMENDATIONS_INSIGHTS_ROW'' = Undefined"
  shows "parseFieldsAndCreateSlide g deck insightDeck layout row = Inl TypeError"
  using assms row_at_cases [of row "propertyIndex g (lit ''RECOMMENDATIONS_APPLIES_ROW'')"]
  by (auto simp add: parseFieldsAndCreateSlide_def field_def Let_def split_def)

lemma imageMockup_field:
  "imageMockup g row =
     (if field g row ''RECOMMENDATIONS_IMAGE_MOCKUP_ROW'' = Str []
      then getProperty (documentProperties g) (lit ''DEFAULT_IMAGE_MOCKUP'')
      else field g row ''RECOMMENDATIONS_IMAGE_MOCKUP_ROW'')"
  by (simp add: imageMockup_def field_def Let_def)

text \<open>A run that returns has called the insight appender last, whatever the row.\<close>

lemma appendInsightSlides_always_called:
  assumes "parseFieldsAndCreateSlide g deck insightDeck layout row = Inr calls"
  shows "\<exists>ids. last calls = AppendInsightSlides deck insightDeck ids"
proof -
  from assms obtain pages where p: "field g row ''RECOMMENDATIONS_APPLIES_ROW'' = Str pages"
    using parse_Inl [of g row deck insightDeck layout]
      row_at_cases [of row "propertyIndex g (lit ''RECOMMENDATIONS_APPLIES_ROW'')"]
    by (auto simp add: field_def)
  from assms obtain ids where i: "field g row ''RECOMMENDATIONS_INSIGHTS_ROW'' = Str ids"
    using parse_Inl [of g row deck insightDeck layout]
      row_at_cases [of row "propertyIndex g (lit ''RECOMMENDATIONS_INSIGHTS_ROW'')"]
    by (auto simp add: field_def)
  from assms parse_Inr [OF p i, of deck insightDeck layout] show ?thesis
    by auto
qed

text \<open>Without an \<^verbatim>\<open>END_SLIDE_ID\<close> the deck finisher opens both decks and raises.\<close>

lemma applyCustomStyle_unset:
  "documentProperties g (lit ''END_SLIDE_ID'') = None \<Longrightarrow>
   applyCustomStyle app g newDeckId =
     ([OpenById (Str newDeckId),
       OpenById (getProperty (documentProperties g) (lit ''INSIGHTS_DECK_ID''))],
      Some TypeError)"
  by (simp add: applyCustomStyle_def getProperty_def Let_def)

section \<open>The claims\<close>

subsection \<open>The image resolver\<close>

text \<open>
  C1. For a criteria id whose search enumerates two or more image files, the resolver
  is claimed to return the last enumerated file and to show exactly one warning toast.
  The doc comment of the function says the same: when multiple images are found, the
  last one is selected. The code keeps the file of the first \<^verbatim>\<open>next()\<close> and never
  calls \<^verbatim>\<open>next()\<close> again. For criteria \<^verbatim>\<open>c1\<close> the example folder enumerates the
  files 10 and 11: one toast is shown, and the file returned is 10, the first, while
  the last enumerated is 11.
\<close>

theorem multiple_matches_returns_first_not_last:
  "ex_folder (searchQuery (Str (lit ''c1''))) = [10, 11]
   \<and> retrieveClientImage ex_globals ex_folder (Str (lit ''c1''))
       = ([lit ''No image found for criteria id c1''], FileObj 10)
   \<and> last [10, 11 :: nat] = 11"
  by (simp add: retrieveClientImage_def WARNING_MULTIPLE_IMAGES_def ex_defs eval_defs)

text \<open>
  C2. The resolver shows a warning toast if and only if the number of matching files
  is not exactly one. With exactly one match it returns that file and shows no toast.
  With no match, and the default image URL configured, it returns that URL and shows
  exactly one toast, the "no image found" message followed by the criteria id.
\<close>

theorem warning_iff_not_exactly_one:
  "(fst (retrieveClientImage g fld cid) \<noteq> [] \<longleftrightarrow> length (fld (searchQuery cid)) \<noteq> 1)
   \<and> (fld (searchQuery cid) = [f] \<longrightarrow> retrieveClientImage g fld cid = ([], FileObj f))
   \<and> (fld (searchQuery cid) = [] \<and> PropertiesService g (lit ''DEFAULT_IMAGE_MOCKUP'') = Some url
        \<longrightarrow> retrieveClientImage g fld cid = ([WARNING_NO_IMAGES @ ToString cid], Prim (Str url)))"
proof (cases "fld (searchQuery cid)")
  case Nil
  then show ?thesis
    by (simp add: retrieveClientImage_none getProperty_def)
next
  case (Cons x xs)
  then show ?thesis
    by (cases xs) (simp_all add: retrieveClientImage_one retrieveClientImage_many)
qed

text \<open>C2 at the example folder: criteria \<^verbatim>\<open>c2\<close> has one screenshot, \<^verbatim>\<open>c3\<close> none.\<close>

theorem warning_iff_not_exactly_one_witness:
  "retrieveClientImage ex_globals ex_folder (Str (lit ''c2'')) = ([], FileObj 20)
   \<and> retrieveClientImage ex_globals ex_folder (Str (lit ''c3''))
       = ([lit ''No image found for criteria id c3''],
          Prim (Str (lit ''https://example.com/default.png'')))"
proof -
  have one: "ex_folder (searchQuery (Str (lit ''c2''))) = [20]"
    by (simp add: ex_defs eval_defs)
  have none: "ex_folder (searchQuery (Str (lit ''c3''))) = []"
    by (simp add: ex_defs eval_defs)
  have url: "PropertiesService ex_globals (lit ''DEFAULT_IMAGE_MOCKUP'')
      = Some (lit ''https://example.com/default.png'')"
    by (simp add: ex_defs eval_defs)
  from one warning_iff_not_exactly_one [of ex_globals ex_folder "Str (lit ''c2'')" 20]
  have "retrieveClientImage ex_globals ex_folder (Str (lit ''c2'')) = ([], FileObj 20)"
    by blast
  moreover
  from none url
    warning_iff_not_exactly_one [of ex_globals ex_folder "Str (lit ''c3'')" _
      "lit ''https://example.com/default.png''"]
  have "retrieveClientImage ex_globals ex_folder (Str (lit ''c3''))
      = ([WARNING_NO_IMAGES @ ToString (Str (lit ''c3''))],
         Prim (Str (lit ''https://example.com/default.png'')))"
    by blast
  ultimately show ?thesis
    by (simp add: WARNING_NO_IMAGES_def lit_def)
qed

subsection \<open>The row parser\<close>

text \<open>
  C3. The insight appender is claimed to be called if and only if the insights cell
  holds at least one insight id, and not for an empty cell. The code guards the call
  with \<^verbatim>\<open>insights.length > 0\<close>, but the split of the empty string is the array
  \<^verbatim>\<open>['']\<close> of length one, so the guard never fails. The example row has an empty
  insights cell (position 6, counted from 0), and the appender is called with the one
  empty id.
\<close>

theorem appender_called_for_empty_insights_cell:
  "ex_row ! 6 = []
   \<and> parseFieldsAndCreateSlide ex_globals (1::nat) (2::nat) (3::nat) ex_row =
       Inr [AppendLayoutSlide 1 3,
            SetText TITLE (Str (lit ''Tap targets'')),
            SetText SUBTITLE (Str (lit ''Applies for: Page A,Page B'')),
            SetText BODY (Str (lit ''Small buttons.'' @ [0x0A] @ lit ''Enlarge them.'')),
            InsertImage (Prim (Str (lit ''https://example.com/default.png''))) (lit ''best-practice''),
            InsertImage (FileObj 20) (lit ''client-mockup''),
            AppendInsightSlides 1 2 [[]]]"
  by (simp add: parseFieldsAndCreateSlide_def createRecommendationSlideGAS_def
      retrieveClientImage_def imageMockup_def ex_defs eval_defs)

text \<open>
  C4, as stated, fails. With the seven columns configured at positions 1 to 7 and an
  empty row, every configured index is out of range, and the run ends in a
  \<^verbatim>\<open>TypeError\<close>: \<^verbatim>\<open>row[index]\<close> is \<^verbatim>\<open>undefined\<close> and the script calls
  \<^verbatim>\<open>split\<close> on it.
\<close>

theorem out_of_range_indices_raise:
  "\<not> in_row [] (propertyIndex ex_globals (lit ''RECOMMENDATIONS_CRITERIA_ID_ROW''))
   \<and> \<not> in_row [] (propertyIndex ex_globals (lit ''RECOMMENDATIONS_CRITERIA_NAME_ROW''))
   \<and> \<not> in_row [] (propertyIndex ex_globals (lit ''RECOMMENDATIONS_APPLIES_ROW''))
   \<and> \<not> in_row [] (propertyIndex ex_globals (lit ''RECOMMENDATIONS_PROBLEM_STATEMENT_ROW''))
   \<and> \<not> in_row [] (propertyIndex ex_globals (lit ''RECOMMENDATIONS_SOLUTION_STATEMENT_ROW''))
   \<and> \<not> in_row [] (propertyIndex ex_globals (lit ''RECOMMENDATIONS_IMAGE_MOCKUP_ROW''))
   \<and> \<not> in_row [] (propertyIndex ex_globals (lit ''RECOMMENDATIONS_INSIGHTS_ROW''))
   \<and> parseFieldsAndCreateSlide ex_globals (1::nat) (2::nat) (3::nat) [] = Inl TypeError"
  by (simp add: parseFieldsAndCreateSlide_def ex_defs eval_defs)

text \<open>
  C4, amended. Row-field extraction has no bounds check. When the configured index of
  the "applies to" column or of the insights column is out of range for the row,
  \<^verbatim>\<open>parseFieldsAndCreateSlide\<close> raises a \<^verbatim>\<open>TypeError\<close> before any call into the
  host. When both are in range it raises nothing and builds the slide from the cells
  as read, and a cell read through any out-of-range index is \<^verbatim>\<open>undefined\<close>: it
  appears as the text "undefined" in the description, and as an undefined title,
  criteria id or image source.
\<close>

theorem out_of_range_fields:
  "(\<not> in_row row (propertyIndex g (lit ''RECOMMENDATIONS_APPLIES_ROW''))
      \<or> \<not> in_row row (propertyIndex g (lit ''RECOMMENDATIONS_INSIGHTS_ROW''))
     \<longrightarrow> parseFieldsAndCreateSlide g deck insightDeck layout row = Inl TypeError)
   \<and> (in_row row (propertyIndex g (lit ''RECOMMENDATIONS_APPLIES_ROW''))
      \<and> in_row row (propertyIndex g (lit ''RECOMMENDATIONS_INSIGHTS_ROW''))
     \<longrightarrow> parseFieldsAndCreateSlide g deck insightDeck layout row =
       Inr (map Toast (fst (retrieveClientImage g (folder g)
                              (field g row ''RECOMMENDATIONS_CRITERIA_ID_ROW'')))
            @ createRecommendationSlideGAS deck layout
                (field g row ''RECOMMENDATIONS_CRITERIA_NAME_ROW'')
                (Str (lit ''Applies for: '' @ ToString (field g row ''RECOMMENDATIONS_APPLIES_ROW'')))
                (Str (ToString (field g row ''RECOMMENDATIONS_PROBLEM_STATEMENT_ROW'') @ [0x0A]
                      @ ToString (field g row ''RECOMMENDATIONS_SOLUTION_STATEMENT_ROW'')))
                (Prim (imageMockup g row))
                (snd (retrieveClientImage g (folder g)
                        (field g row ''RECOMMENDATIONS_CRITERIA_ID_ROW'')))
            @ [AppendInsightSlides deck insightDeck
                 (js_split comma (ToString (field g row ''RECOMMENDATIONS_INSIGHTS_ROW'')))]))
   \<and> (\<not> in_row row (propertyIndex g (lit key))
     \<longrightarrow> field g row key = Undefined \<and> ToString (field g row key) = lit ''undefined'')
   \<and> (\<not> in_row row (propertyIndex g (lit ''RECOMMENDATIONS_IMAGE_MOCKUP_ROW''))
     \<longrightarrow> imageMockup g row = Undefined)"
proof (intro conjI impI)
  assume "\<not> in_row row (propertyIndex g (lit ''RECOMMENDATIONS_APPLIES_ROW''))
      \<or> \<not> in_row row (propertyIndex g (lit ''RECOMMENDATIONS_INSIGHTS_ROW''))"
  then have "field g row ''RECOMMENDATIONS_APPLIES_ROW'' = Undefined
     \<or> field g row ''RECOMMENDATIONS_INSIGHTS_ROW'' = Undefined"
    by (auto simp add: field_def dest: row_at_out)
  then show "parseFieldsAndCreateSlide g deck insightDeck layout row = Inl TypeError"
    by (rule parse_Inl)
next
  assume "in_row row (propertyIndex g (lit ''RECOMMENDATIONS_APPLIES_ROW''))
      \<and> in_row row (propertyIndex g (lit ''RECOMMENDATIONS_INSIGHTS_ROW''))"
  then have a: "field g row ''RECOMMENDATIONS_APPLIES_ROW''
        = Str (ToString (field g row ''RECOMMENDATIONS_APPLIES_ROW''))"
    and i: "field g row ''RECOMMENDATIONS_INSIGHTS_ROW''
        = Str (ToString (field g row ''RECOMMENDATIONS_INSIGHTS_ROW''))"
    by (simp_all add: field_def row_at_in_row [symmetric])
  show "parseFieldsAndCreateSlide g deck insightDeck layout row =
       Inr (map Toast (fst (retrieveClientImage g (folder g)
                              (field g row ''RECOMMENDATIONS_CRITERIA_ID_ROW'')))
            @ createRecommendationSlideGAS deck layout
                (field g row ''RECOMMENDATIONS_CRITERIA_NAME_ROW'')
                (Str (lit ''Applies for: '' @ ToString (field g row ''RECOMMENDATIONS_APPLIES_ROW'')))
                (Str (ToString (field g row ''RECOMMENDATIONS_PROBLEM_STATEMENT_ROW'') @ [0x0A]
                      @ ToString (field g row ''RECOMMENDATIONS_SOLUTION_STATEMENT_ROW'')))
                (Prim (imageMockup g row))
                (snd (retrieveClientImage g (folder g)
                        (field g row ''RECOMMENDATIONS_CRITERIA_ID_ROW'')))
            @ [AppendInsightSlides deck insightDeck
                 (js_split comma (ToString (field g row ''RECOMMENDATIONS_INSIGHTS_ROW'')))])"
    by (rule parse_Inr [OF a i])
next
  assume "\<not> in_row row (propertyIndex g (lit key))"
  then show "field g row key = Undefined"
    by (simp add: field_def row_at_out)
next
  assume "\<not> in_row row (propertyIndex g (lit key))"
  then show "ToString (field g row key) = lit ''undefined''"
    by (simp add: field_def row_at_out)
next
  assume "\<not> in_row row (propertyIndex g (lit ''RECOMMENDATIONS_IMAGE_MOCKUP_ROW''))"
  then have "field g row ''RECOMMENDATIONS_IMAGE_MOCKUP_ROW'' = Undefined"
    by (simp add: field_def row_at_out)
  then show "imageMockup g row = Undefined"
    by (simp add: imageMockup_field)
qed

text \<open>
  C4, amended, at two inputs. A row of two cells under the seven-column configuration
  has no "applies to" cell, and the run raises. The two-cell row under the short
  configuration has its "applies to" and insights cells and no other: the run returns,
  with an undefined title and image source and "undefined" twice in the description.
\<close>

theorem out_of_range_fields_witness:
  "parseFieldsAndCreateSlide ex_globals (1::nat) (2::nat) (3::nat) [lit ''c2'', lit ''Tap targets'']
     = Inl TypeError
   \<and> parseFieldsAndCreateSlide ex_globals_short (1::nat) (2::nat) (3::nat) ex_row_short =
       Inr [Toast (lit ''No image found for criteria id undefined''),
            AppendLayoutSlide 1 3,
            SetText TITLE Undefined,
            SetText SUBTITLE (Str (lit ''Applies for: Page A'')),
            SetText BODY (Str (lit ''undefined'' @ [0x0A] @ lit ''undefined'')),
            InsertImage (Prim Undefined) (lit ''best-practice''),
            InsertImage (Prim (Str (lit ''https://example.com/default.png''))) (lit ''client-mockup''),
            AppendInsightSlides 1 2 [lit ''S1'']]"
proof -
  have out: "\<not> in_row [lit ''c2'', lit ''Tap targets'']
      (propertyIndex ex_globals (lit ''RECOMMENDATIONS_APPLIES_ROW''))"
    by (simp add: ex_defs eval_defs)
  have a: "in_row ex_row_short (propertyIndex ex_globals_short (lit ''RECOMMENDATIONS_APPLIES_ROW''))"
    and i: "in_row ex_row_short (propertyIndex ex_globals_short (lit ''RECOMMENDATIONS_INSIGHTS_ROW''))"
    by (simp_all add: ex_defs eval_defs)
  have o: "\<not> in_row ex_row_short (propertyIndex ex_globals_short (lit ''RECOMMENDATIONS_CRITERIA_ID_ROW''))"
    "\<not> in_row ex_row_short (propertyIndex ex_globals_short (lit ''RECOMMENDATIONS_CRITERIA_NAME_ROW''))"
    "\<not> in_row ex_row_short (propertyIndex ex_globals_short (lit ''RECOMMENDATIONS_PROBLEM_STATEMENT_ROW''))"
    "\<not> in_row ex_row_short (propertyIndex ex_globals_short (lit ''RECOMMENDATIONS_SOLUTION_STATEMENT_ROW''))"
    "\<not> in_row ex_row_short (propertyIndex ex_globals_short (lit ''RECOMMENDATIONS_IMAGE_MOCKUP_ROW''))"
    by (simp_all add: ex_defs eval_defs)
  have fa: "field ex_globals_short ex_row_short ''RECOMMENDATIONS_APPLIES_ROW'' = Str (lit ''Page A'')"
    and fi: "field ex_globals_short ex_row_short ''RECOMMENDATIONS_INSIGHTS_ROW'' = Str (lit ''S1'')"
    by (simp_all add: ex_defs eval_defs)
  have none: "folder ex_globals_short (searchQuery Undefined) = []"
    by (simp add: ex_defs eval_defs)
  have rci: "retrieveClientImage ex_globals_short (folder ex_globals_short) Undefined
      = ([lit ''No image found for criteria id undefined''],
         Prim (Str (lit ''https://example.com/default.png'')))"
    using none
      retrieveClientImage_none [where fld = "folder ex_globals_short" and cid = Undefined
        and g = ex_globals_short]
    by (simp add: WARNING_NO_IMAGES_def ex_defs eval_defs)
  from out out_of_range_fields [of "[lit ''c2'', lit ''Tap targets'']" ex_globals 1 2 3]
  have 1: "parseFieldsAndCreateSlide ex_globals (1::nat) (2::nat) (3::nat)
      [lit ''c2'', lit ''Tap targets''] = Inl TypeError"
    by blast
  note t = out_of_range_fields [of ex_row_short ex_globals_short 1 2 3]
  from o(1) t [of "''RECOMMENDATIONS_CRITERIA_ID_ROW''"]
  have f1: "field ex_globals_short ex_row_short ''RECOMMENDATIONS_CRITERIA_ID_ROW'' = Undefined"
    by blast
  from o(2) t [of "''RECOMMENDATIONS_CRITERIA_NAME_ROW''"]
  have f2: "field ex_globals_short ex_row_short ''RECOMMENDATIONS_CRITERIA_NAME_ROW'' = Undefined"
    by blast
  from o(3) t [of "''RECOMMENDATIONS_PROBLEM_STATEMENT_ROW''"]
  have f3: "ToString (field ex_globals_short ex_row_short ''RECOMMENDATIONS_PROBLEM_STATEMENT_ROW'')
      = lit ''undefined''"
    by blast
  from o(4) t [of "''RECOMMENDATIONS_SOLUTION_STATEMENT_ROW''"]
  have f4: "ToString (field ex_globals_short ex_row_short ''RECOMMENDATIONS_SOLUTION_STATEMENT_ROW'')
      = lit ''undefined''"
    by blast
  from o(5) t [of "''RECOMMENDATIONS_IMAGE_MOCKUP_ROW''"]
  have f5: "imageMockup ex_globals_short ex_row_short = Undefined"
    by blast
  from a i t [of "''RECOMMENDATIONS_APPLIES_ROW''"]
  have "parseFieldsAndCreateSlide ex_globals_short (1::nat) (2::nat) (3::nat) ex_row_short =
       Inr (map Toast (fst (retrieveClientImage ex_globals_short (folder ex_globals_short)
                              (field ex_globals_short ex_row_short ''RECOMMENDATIONS_CRITERIA_ID_ROW'')))
            @ createRecommendationSlideGAS 1 3
                (field ex_globals_short ex_row_short ''RECOMMENDATIONS_CRITERIA_NAME_ROW'')
                (Str (lit ''Applies for: '' @ ToString (field ex_globals_short ex_row_short ''RECOMMENDATIONS_APPLIES_ROW'')))
                (Str (ToString (field ex_globals_short ex_row_short ''RECOMMENDATIONS_PROBLEM_STATEMENT_ROW'') @ [0x0A]
                      @ ToString (field ex_globals_short ex_row_short ''RECOMMENDATIONS_SOLUTION_STATEMENT_ROW'')))
                (Prim (imageMockup ex_globals_short ex_row_short))
                (snd (retrieveClientImage ex_globals_short (folder ex_globals_short)
                        (field ex_globals_short ex_row_short ''RECOMMENDATIONS_CRITERIA_ID_ROW'')))
            @ [AppendInsightSlides 1 2
                 (js_split comma (ToString (field ex_globals_short ex_row_short ''RECOMMENDATIONS_INSIGHTS_ROW'')))])"
    by blast
  then have 2: "parseFieldsAndCreateSlide ex_globals_short (1::nat) (2::nat) (3::nat) ex_row_short =
       Inr (map Toast [lit ''No image found for criteria id undefined'']
            @ createRecommendationSlideGAS 1 3 Undefined
                (Str (lit ''Applies for: '' @ lit ''Page A''))
                (Str (lit ''undefined'' @ [0x0A] @ lit ''undefined''))
                (Prim Undefined)
                (Prim (Str (lit ''https://example.com/default.png'')))
            @ [AppendInsightSlides 1 2 (js_split comma (lit ''S1''))])"
    by (simp only: f1 f2 f3 f4 f5 fa fi rci fst_conv snd_conv ToString.simps)
  from 1 2 show ?thesis
    by (simp add: createRecommendationSlideGAS_def lit_def comma_def)
qed

subsection \<open>The warning messages\<close>

text \<open>
  C5. The two warning constants are the same string, "No image found for criteria id ".
  The toast shown when several images are found is, character for character, the
  toast shown when none is found: that text followed by the criteria id.
\<close>

theorem warning_messages_identical:
  "WARNING_MULTIPLE_IMAGES = WARNING_NO_IMAGES
   \<and> WARNING_NO_IMAGES = lit ''No image found for criteria id ''
   \<and> fst (retrieveClientImage g (\<lambda>q. f # f' # fs) (Str criteriaId))
       = [lit ''No image found for criteria id '' @ criteriaId]
   \<and> fst (retrieveClientImage g (\<lambda>q. []) (Str criteriaId))
       = [lit ''No image found for criteria id '' @ criteriaId]"
  by (simp add: retrieveClientImage_def WARNING_MULTIPLE_IMAGES_def WARNING_NO_IMAGES_def)

text \<open>
  C10. When no image file matches the criteria id and the document property
  \<^verbatim>\<open>DEFAULT_IMAGE_MOCKUP\<close> is not set, the resolver returns \<^verbatim>\<open>null\<close>, neither a
  file nor a URL string.
\<close>

theorem null_when_default_unset:
  assumes "fld (searchQuery cid) = []"
    and "PropertiesService g (lit ''DEFAULT_IMAGE_MOCKUP'') = None"
  shows "snd (retrieveClientImage g fld cid) = Prim Null"
  using assms by (simp add: retrieveClientImage_none getProperty_def)

text \<open>C10 at the example folder, for criteria \<^verbatim>\<open>c3\<close>, with an empty property store.\<close>

theorem null_when_default_unset_witness:
  "ex_folder (searchQuery (Str (lit ''c3''))) = []
   \<and> PropertiesService (ex_globals\<lparr>PropertiesService := Map.empty\<rparr>) (lit ''DEFAULT_IMAGE_MOCKUP'') = None
   \<and> snd (retrieveClientImage (ex_globals\<lparr>PropertiesService := Map.empty\<rparr>) ex_folder (Str (lit ''c3'')))
       = Prim Null"
proof -
  have none: "ex_folder (searchQuery (Str (lit ''c3''))) = []"
    by (simp add: ex_defs eval_defs)
  have unset: "PropertiesService (ex_globals\<lparr>PropertiesService := Map.empty\<rparr>)
      (lit ''DEFAULT_IMAGE_MOCKUP'') = None"
    by simp
  from none unset
    null_when_default_unset [where fld = ex_folder and cid = "Str (lit ''c3'')"
      and g = "ex_globals\<lparr>PropertiesService := Map.empty\<rparr>"]
  show ?thesis
    by blast
qed

subsection \<open>The fields of the slide\<close>

text \<open>
  C6. For a row whose image-mockup cell is blank (the empty string), the image source
  passed to the slide builder is the configured \<^verbatim>\<open>DEFAULT_IMAGE_MOCKUP\<close> URL;
  otherwise it is the contents of the cell.
\<close>

theorem blank_image_cell_takes_default:
  assumes "field g row ''RECOMMENDATIONS_APPLIES_ROW'' = Str pages"
    and "field g row ''RECOMMENDATIONS_INSIGHTS_ROW'' = Str ids"
    and "field g row ''RECOMMENDATIONS_IMAGE_MOCKUP_ROW'' = Str cell"
    and "documentProperties g (lit ''DEFAULT_IMAGE_MOCKUP'') = Some url"
  shows "\<exists>toasts criteria applicable description clientImage rest.
     parseFieldsAndCreateSlide g deck insightDeck layout row =
       Inr (map Toast toasts
            @ createRecommendationSlideGAS deck layout criteria applicable description
                (Prim (Str (if cell = [] then url else cell))) clientImage
            @ rest)"
proof -
  from assms(3,4) have "imageMockup g row = Str (if cell = [] then url else cell)"
    by (simp add: imageMockup_field getProperty_def)
  with parse_Inr [OF assms(1,2), of deck insightDeck layout] show ?thesis
    by (simp only: ) blast
qed

text \<open>C6 at the example row, whose image cell is blank, and at the row whose image
  cell holds one space.\<close>

theorem blank_image_cell_takes_default_witness:
  "field ex_globals ex_row ''RECOMMENDATIONS_IMAGE_MOCKUP_ROW'' = Str []
   \<and> (\<exists>toasts criteria applicable description clientImage rest.
     parseFieldsAndCreateSlide ex_globals (1::nat) (2::nat) (3::nat) ex_row =
       Inr (map Toast toasts
            @ createRecommendationSlideGAS 1 3 criteria applicable description
                (Prim (Str (lit ''https://example.com/default.png''))) clientImage
            @ rest))
   \<and> field ex_globals ex_row_space ''RECOMMENDATIONS_IMAGE_MOCKUP_ROW'' = Str (lit '' '')
   \<and> (\<exists>toasts criteria applicable description clientImage rest.
     parseFieldsAndCreateSlide ex_globals (1::nat) (2::nat) (3::nat) ex_row_space =
       Inr (map Toast toasts
            @ createRecommendationSlideGAS 1 3 criteria applicable description
                (Prim (Str (lit '' ''))) clientImage
            @ rest))"
proof -
  have a: "field ex_globals ex_row ''RECOMMENDATIONS_APPLIES_ROW'' = Str (lit ''Page A,Page B'')"
    and i: "field ex_globals ex_row ''RECOMMENDATIONS_INSIGHTS_ROW'' = Str []"
    and m: "field ex_globals ex_row ''RECOMMENDATIONS_IMAGE_MOCKUP_ROW'' = Str []"
    and a': "field ex_globals ex_row_space ''RECOMMENDATIONS_APPLIES_ROW'' = Str (lit ''Page A,Page B'')"
    and i': "field ex_globals ex_row_space ''RECOMMENDATIONS_INSIGHTS_ROW'' = Str (lit ''S1,S2'')"
    and m': "field ex_globals ex_row_space ''RECOMMENDATIONS_IMAGE_MOCKUP_ROW'' = Str (lit '' '')"
    and u: "documentProperties ex_globals (lit ''DEFAULT_IMAGE_MOCKUP'')
        = Some (lit ''https://example.com/default.png'')"
    by (simp_all add: ex_defs eval_defs)
  have ne: "lit '' '' \<noteq> []"
    by (simp add: lit_def)
  from m m'
    blank_image_cell_takes_default [OF a i m u,
      where deck = "1::nat" and insightDeck = "2::nat" and layout = "3::nat"]
    blank_image_cell_takes_default [OF a' i' m' u,
      where deck = "1::nat" and insightDeck = "2::nat" and layout = "3::nat"]
  show ?thesis
    by (simp only: ne if_True if_False simp_thms)
qed

text \<open>
  C9. The default image URL is substituted only when the image-mockup cell is exactly
  the empty string under strict equality. Any other cell, one that holds only white
  space included, is passed to the slide builder as it is.
\<close>

theorem nonempty_image_cell_passed_verbatim:
  assumes "field g row ''RECOMMENDATIONS_APPLIES_ROW'' = Str pages"
    and "field g row ''RECOMMENDATIONS_INSIGHTS_ROW'' = Str ids"
    and "field g row ''RECOMMENDATIONS_IMAGE_MOCKUP_ROW'' \<noteq> Str []"
  shows "imageMockup g row = field g row ''RECOMMENDATIONS_IMAGE_MOCKUP_ROW''
   \<and> (\<exists>toasts criteria applicable description clientImage rest.
     parseFieldsAndCreateSlide g deck insightDeck layout row =
       Inr (map Toast toasts
            @ createRecommendationSlideGAS deck layout criteria applicable description
                (Prim (field g row ''RECOMMENDATIONS_IMAGE_MOCKUP_ROW'')) clientImage
            @ rest))"
proof -
  from assms(3) have "imageMockup g row = field g row ''RECOMMENDATIONS_IMAGE_MOCKUP_ROW''"
    by (simp add: imageMockup_field)
  with parse_Inr [OF assms(1,2), of deck insightDeck layout] show ?thesis
    by (simp only: simp_thms) blast
qed

text \<open>C9 at the row whose image cell holds one space.\<close>

theorem nonempty_image_cell_passed_verbatim_witness:
  "field ex_globals ex_row_space ''RECOMMENDATIONS_IMAGE_MOCKUP_ROW'' = Str [0x20]
   \<and> imageMockup ex_globals ex_row_space = Str [0x20]
   \<and> (\<exists>toasts criteria applicable description clientImage rest.
     parseFieldsAndCreateSlide ex_globals (1::nat) (2::nat) (3::nat) ex_row_space =
       Inr (map Toast toasts
            @ createRecommendationSlideGAS 1 3 criteria applicable description
                (Prim (Str [0x20])) clientImage
            @ rest))"
proof -
  have a: "field ex_globals ex_row_space ''RECOMMENDATIONS_APPLIES_ROW'' = Str (lit ''Page A,Page B'')"
    and i: "field ex_globals ex_row_space ''RECOMMENDATIONS_INSIGHTS_ROW'' = Str (lit ''S1,S2'')"
    and m: "field ex_globals ex_row_space ''RECOMMENDATIONS_IMAGE_MOCKUP_ROW'' = Str [0x20]"
    by (simp_all add: ex_defs eval_defs)
  from m have ne: "field ex_globals ex_row_space ''RECOMMENDATIONS_IMAGE_MOCKUP_ROW'' \<noteq> Str []"
    by simp
  from nonempty_image_cell_passed_verbatim [OF a i ne,
      where deck = "1::nat" and insightDeck = "2::nat" and layout = "3::nat"]
  show ?thesis
    by (simp only: m simp_thms)
qed

text \<open>
  C7. Splitting an "applies to" cell on commas and joining the parts with commas gives
  the cell back, so the subtitle of the slide is "Applies for: " followed by the cell
  as it is; the cell "Page A,Page B" gives exactly "Applies for: Page A,Page B".
\<close>

theorem applies_to_split_and_rejoined_unchanged:
  "js_join comma (js_split comma cell) = cell
   \<and> (field g row ''RECOMMENDATIONS_APPLIES_ROW'' = Str cell
      \<and> field g row ''RECOMMENDATIONS_INSIGHTS_ROW'' = Str ids
     \<longrightarrow> (\<exists>toasts criteria description image clientImage rest.
       parseFieldsAndCreateSlide g deck insightDeck layout row =
         Inr (map Toast toasts
              @ createRecommendationSlideGAS deck layout criteria
                  (Str (lit ''Applies for: '' @ cell)) description image clientImage
              @ rest)))
   \<and> lit ''Applies for: '' @ js_join comma (js_split comma (lit ''Page A,Page B''))
       = lit ''Applies for: Page A,Page B''"
proof (intro conjI impI)
  show "js_join comma (js_split comma cell) = cell"
    by (rule js_join_split)
next
  assume "field g row ''RECOMMENDATIONS_APPLIES_ROW'' = Str cell
      \<and> field g row ''RECOMMENDATIONS_INSIGHTS_ROW'' = Str ids"
  then have a: "field g row ''RECOMMENDATIONS_APPLIES_ROW'' = Str cell"
    and i: "field g row ''RECOMMENDATIONS_INSIGHTS_ROW'' = Str ids"
    by simp_all
  from parse_Inr [OF a i, of deck insightDeck layout]
  show "\<exists>toasts criteria description image clientImage rest.
       parseFieldsAndCreateSlide g deck insightDeck layout row =
         Inr (map Toast toasts
              @ createRecommendationSlideGAS deck layout criteria
                  (Str (lit ''Applies for: '' @ cell)) description image clientImage
              @ rest)"
    by blast
next
  show "lit ''Applies for: '' @ js_join comma (js_split comma (lit ''Page A,Page B''))
       = lit ''Applies for: Page A,Page B''"
    by (simp add: js_join_split lit_def)
qed

text \<open>C7 at the example row, whose "applies to" cell is "Page A,Page B".\<close>

theorem applies_to_split_and_rejoined_unchanged_witness:
  "field ex_globals ex_row ''RECOMMENDATIONS_APPLIES_ROW'' = Str (lit ''Page A,Page B'')
   \<and> (\<exists>toasts criteria description image clientImage rest.
       parseFieldsAndCreateSlide ex_globals (1::nat) (2::nat) (3::nat) ex_row =
         Inr (map Toast toasts
              @ createRecommendationSlideGAS 1 3 criteria
                  (Str (lit ''Applies for: '' @ lit ''Page A,Page B'')) description image clientImage
              @ rest))"
proof -
  have a: "field ex_globals ex_row ''RECOMMENDATIONS_APPLIES_ROW'' = Str (lit ''Page A,Page B'')"
    and i: "field ex_globals ex_row ''RECOMMENDATIONS_INSIGHTS_ROW'' = Str []"
    by (simp_all add: ex_defs eval_defs)
  from a i
    applies_to_split_and_rejoined_unchanged [where g = ex_globals and row = ex_row
      and cell = "lit ''Page A,Page B''" and ids = "[]"
      and deck = "1::nat" and insightDeck = "2::nat" and layout = "3::nat"]
  show ?thesis
    by blast
qed

subsection \<open>The deck finisher\<close>

text \<open>
  C8. \<^verbatim>\<open>applyCustomStyle\<close> opens the generated deck and the insights deck, looks
  the end slide up in the insights deck by the \<^verbatim>\<open>END_SLIDE_ID\<close> property without
  its surrounding white space, and appends that slide to the generated deck in
  unlinked mode. The property is written as a core between a prefix and a suffix of
  white space.
\<close>

theorem end_slide_appended_unlinked:
  assumes "documentProperties g (lit ''END_SLIDE_ID'') = Some (pre @ core @ post)"
    and "list_all isWhiteSpace pre"
    and "list_all isWhiteSpace post"
    and "core = [] \<or> (\<not> isWhiteSpace (hd core) \<and> \<not> isWhiteSpace (last core))"
  shows "applyCustomStyle app g newDeckId =
     ([OpenById (Str newDeckId),
       OpenById (getProperty (documentProperties g) (lit ''INSIGHTS_DECK_ID'')),
       GetSlideById
         (openById app (getProperty (documentProperties g) (lit ''INSIGHTS_DECK_ID''))) core,
       AppendSlide (openById app (Str newDeckId))
         (getSlideById app
            (openById app (getProperty (documentProperties g) (lit ''INSIGHTS_DECK_ID''))) core)
         NOT_LINKED],
      None)"
proof -
  from assms(2-4) have "js_trim (pre @ core @ post) = core"
    by (rule js_trim_core)
  with assms(1) show ?thesis
    by (simp add: applyCustomStyle_def getProperty_def Let_def)
qed

text \<open>C8 at the example configuration, where the end slide id is stored with a space
  before it and a space and a line feed after it.\<close>

theorem end_slide_appended_unlinked_witness:
  "documentProperties ex_globals (lit ''END_SLIDE_ID'') = Some ([0x20] @ lit ''end_1'' @ [0x20, 0x0A])
   \<and> applyCustomStyle ex_app ex_globals (lit ''new-deck'') =
     ([OpenById (Str (lit ''new-deck'')),
       OpenById (Str (lit ''insights-deck'')),
       GetSlideById 2 (lit ''end_1''),
       AppendSlide 1 (2, lit ''end_1'') NOT_LINKED],
      None)"
proof -
  have e: "documentProperties ex_globals (lit ''END_SLIDE_ID'')
      = Some ([0x20] @ lit ''end_1'' @ [0x20, 0x0A])"
    by (simp add: ex_defs eval_defs)
  have pre: "list_all isWhiteSpace [0x20]" and post: "list_all isWhiteSpace [0x20, 0x0A]"
    by (simp_all add: isWhiteSpace_def)
  have core: "lit ''end_1'' = [] \<or>
      (\<not> isWhiteSpace (hd (lit ''end_1'')) \<and> \<not> isWhiteSpace (last (lit ''end_1'')))"
    by (simp add: isWhiteSpace_def lit_def)
  have d: "getProperty (documentProperties ex_globals) (lit ''INSIGHTS_DECK_ID'')
      = Str (lit ''insights-deck'')"
    by (simp add: ex_defs eval_defs)
  have o1: "openById ex_app (Str (lit ''new-deck'')) = 1"
    and o2: "openById ex_app (Str (lit ''insights-deck'')) = 2"
    and s: "getSlideById ex_app 2 (lit ''end_1'') = (2, lit ''end_1'')"
    by (simp_all add: ex_defs lit_def)
  from end_slide_appended_unlinked [OF e pre post core, of ex_app "lit ''new-deck''"]
  have "applyCustomStyle ex_app ex_globals (lit ''new-deck'') =
     ([OpenById (Str (lit ''new-deck'')),
       OpenById (Str (lit ''insights-deck'')),
       GetSlideById 2 (lit ''end_1''),
       AppendSlide 1 (2, lit ''end_1'') NOT_LINKED],
      None)"
    by (simp only: d o1 o2 s)
  with e show ?thesis
    by (rule conjI)
qed

end
